theory Spec2Isabelle
  imports Main
begin

section \<open>The pull-request file-diff tool of \<open>src/tools/repos.ts\<close>\<close>

text \<open>
  The development embeds the handler of the tool \<open>repo_read_pull_request_file_diffs\<close>
  (\<open>configureRepoTools\<close>, lines 111 to 339 of \<open>src/tools/repos.ts\<close>).
  JavaScript strings are modelled as \<^typ>\<open>string\<close>, numbers that hold indices and
  counts as \<^typ>\<open>nat\<close>, numbers that come from the caller as \<^typ>\<open>int\<close>.
  Everything a call can throw is a value of type \<open>thrown\<close>.
\<close>

subsection \<open>Strings\<close>

text \<open>\<open>String.prototype.split("\n")\<close>: the pieces between line feeds, of which there is
  always one more than there are line feeds.\<close>

fun split_lf :: "string \<Rightarrow> string list" where
  "split_lf [] = [[]]"
| "split_lf (c # cs) =
     (if c = CHR 0x0A then [] # split_lf cs
      else (case split_lf cs of [] \<Rightarrow> [[c]] | l # ls \<Rightarrow> (c # l) # ls))"

text \<open>\<open>Array.prototype.join(sep)\<close>.\<close>

fun join :: "string \<Rightarrow> string list \<Rightarrow> string" where
  "join sep [] = []"
| "join sep [x] = x"
| "join sep (x # y # ys) = x @ sep @ join sep (y # ys)"

text \<open>\<open>Number.prototype.toString()\<close> on an integer: its decimal digits, with a minus sign
  when negative.\<close>

fun digits :: "nat \<Rightarrow> string" where
  "digits n =
     (if n < 10 then [''0123456789'' ! n]
      else digits (n div 10) @ [''0123456789'' ! (n mod 10)])"

declare digits.simps [simp del]

definition toString :: "int \<Rightarrow> string" where
  "toString i = (if i < 0 then CHR ''-'' # digits (nat (- i)) else digits (nat i))"

text \<open>\<open>String.prototype.padStart(n)\<close>: spaces on the left up to width \<open>n\<close>.\<close>

definition padStart :: "nat \<Rightarrow> string \<Rightarrow> string" where
  "padStart n s = replicate (n - length s) CHR '' '' @ s"

subsection \<open>Array slices\<close>

text \<open>
  \<open>Array.prototype.slice(start, end)\<close> on integer arguments: a negative argument counts
  from the end of the array, and both are clamped to \<open>[0, length]\<close> before any element
  is read. \<open>slice_indices\<close> are the indices that are read, in order.
\<close>

definition slice_indices :: "nat \<Rightarrow> int \<Rightarrow> int \<Rightarrow> nat list" where
  "slice_indices len start end =
     (let k = (if start < 0 then max (int len + start) 0 else min start (int len));
          final = (if end < 0 then max (int len + end) 0 else min end (int len))
      in [nat k ..< nat final])"

definition slice :: "'a list \<Rightarrow> int \<Rightarrow> int \<Rightarrow> 'a list" where
  "slice xs start end = map (\<lambda>i. xs ! i) (slice_indices (length xs) start end)"

subsection \<open>The context window: \<open>extractContext\<close>\<close>

record context_window =
  before :: string
  changed :: string
  after :: string

definition formatLinesWithNumbers :: "string list \<Rightarrow> int \<Rightarrow> string" where
  "formatLinesWithNumbers lineSlice startNum =
     join [CHR 0x0A]
       (map (\<lambda>(index, line). padStart 4 (toString (startNum + int index)) @ '': '' @ line)
            (enumerate 0 lineSlice))"

definition extractContext :: "string list \<Rightarrow> int \<Rightarrow> int \<Rightarrow> int \<Rightarrow> int \<Rightarrow> context_window" where
  "extractContext lines start end ctx startLineNumber =
     (let beforeStart = max 0 (start - ctx);
          afterEnd = min (int (length lines)) (end + ctx)
      in \<lparr> before = formatLinesWithNumbers (slice lines beforeStart start) (startLineNumber + beforeStart),
           changed = formatLinesWithNumbers (slice lines start end) (startLineNumber + start),
           after = formatLinesWithNumbers (slice lines end afterEnd) (startLineNumber + end) \<rparr>)"

subsection \<open>The region classifier: the loop over the parts of \<open>diffLines\<close>\<close>

text \<open>
  \<open>diffLines\<close> belongs to the npm package \<open>diff\<close>, which the file imports; its result is
  taken as given. A part carries the flags \<open>added\<close> and \<open>removed\<close>, the number of lines
  \<open>count\<close> and the text \<open>value\<close> (here \<open>part_value\<close>). The loop reads the flags and the
  count only.
\<close>

record part =
  added :: bool
  removed :: bool
  count :: nat
  part_value :: string

record region =
  rtype :: string
  beforeStart :: nat
  beforeEnd :: nat
  afterStart :: nat
  afterEnd :: nat

record cursor =
  beforeIdx :: nat
  afterIdx :: nat
  diffRegions :: "region list"

definition classify_part :: "cursor \<Rightarrow> part \<Rightarrow> cursor" where
  "classify_part s p =
     (if added p then
        \<lparr> beforeIdx = beforeIdx s,
          afterIdx = afterIdx s + count p,
          diffRegions = diffRegions s @
            [\<lparr> rtype = ''added'',
               beforeStart = beforeIdx s, beforeEnd = beforeIdx s,
               afterStart = afterIdx s, afterEnd = afterIdx s + count p \<rparr>] \<rparr>
      else if removed p then
        \<lparr> beforeIdx = beforeIdx s + count p,
          afterIdx = afterIdx s,
          diffRegions = diffRegions s @
            [\<lparr> rtype = ''removed'',
               beforeStart = beforeIdx s, beforeEnd = beforeIdx s + count p,
               afterStart = afterIdx s, afterEnd = afterIdx s \<rparr>] \<rparr>
      else
        \<lparr> beforeIdx = beforeIdx s + count p,
          afterIdx = afterIdx s + count p,
          diffRegions = diffRegions s \<rparr>)"

definition classify_from :: "cursor \<Rightarrow> part list \<Rightarrow> cursor" where
  "classify_from s changesArr = foldl classify_part s changesArr"

definition classify :: "part list \<Rightarrow> cursor" where
  "classify changesArr =
     classify_from \<lparr> beforeIdx = 0, afterIdx = 0, diffRegions = [] \<rparr> changesArr"

subsection \<open>What the server returns\<close>

text \<open>
  A value that a call throws or a promise rejects with: an \<open>Error\<close> object with its
  message, or any other value.
\<close>

datatype thrown = ErrorObject string | OtherValue

text \<open>A stream is given by what \<open>streamToString\<close> makes of it: the text, or the value
  its \<open>error\<close> event rejects with.\<close>

type_synonym stream = "thrown + string"

definition streamToString :: "stream \<Rightarrow> thrown + string" where
  "streamToString stream = stream"

text \<open>
  A change entry as the handler reads it: \<open>change.item?.path\<close>, \<open>change.changeType\<close> and
  \<open>change.sourceServerItem\<close>, each of which may be absent. An iteration: its \<open>id\<close> and
  the commit ids \<open>sourceRefCommit?.commitId\<close> and \<open>targetRefCommit?.commitId\<close>.
\<close>

record change_entry =
  item_path :: "string option"
  changeType :: "int option"
  sourceServerItem :: "string option"

record iteration =
  iteration_id :: "int option"
  sourceRefCommit :: "string option"
  targetRefCommit :: "string option"

text \<open>
  The three calls on \<open>gitApi\<close>, for the repository, pull request and project of the
  request. \<open>getPullRequestIterationChanges\<close> takes the iteration id and gives
  \<open>changesResult?.changeEntries\<close>; \<open>getItemContent\<close> takes the path and the commit.
\<close>

record git_api =
  getPullRequestIterations :: "thrown + iteration list option"
  getPullRequestIterationChanges :: "int \<Rightarrow> thrown + change_entry list option"
  getItemContent :: "string \<Rightarrow> string \<Rightarrow> thrown + stream option"


text \<open>A content request that was issued: the path and the commit.\<close>

type_synonym request = "string \<times> string"

subsection \<open>Fetching the two contents of a file (the \<open>try\<close> block)\<close>

definition fetchContents ::
  "git_api \<Rightarrow> string \<Rightarrow> string \<Rightarrow> string \<Rightarrow> int option \<Rightarrow> request list
     \<Rightarrow> request list \<times> (thrown + string \<times> string)" where
  "fetchContents gitApi targetCommitId sourceCommitId path ct log =
     (let (log1, beforeResult) =
            (if ct \<noteq> Some 1 then
               (log @ [(path, targetCommitId)],
                case getItemContent gitApi path targetCommitId of
                  Inl e \<Rightarrow> Inl e
                | Inr None \<Rightarrow> Inr []
                | Inr (Some beforeItem) \<Rightarrow> streamToString beforeItem)
             else (log, Inr []))
      in case beforeResult of
           Inl e \<Rightarrow> (log1, Inl e)
         | Inr beforeContent \<Rightarrow>
             (let (log2, afterResult) =
                    (if ct \<noteq> Some 2 then
                       (log1 @ [(path, sourceCommitId)],
                        case getItemContent gitApi path sourceCommitId of
                          Inl e \<Rightarrow> Inl e
                        | Inr None \<Rightarrow> Inr []
                        | Inr (Some afterItem) \<Rightarrow> streamToString afterItem)
                     else (log1, Inr []))
              in case afterResult of
                   Inl e \<Rightarrow> (log2, Inl e)
                 | Inr afterContent \<Rightarrow> (log2, Inr (beforeContent, afterContent))))"

subsection \<open>Rendering one file\<close>

definition numbered :: "string list \<Rightarrow> string" where
  "numbered lineSlice =
     join [CHR 0x0A]
       (map (\<lambda>(index, line). padStart 4 (toString (int index + 1)) @ '': '' @ line)
            (enumerate 0 lineSlice))"

definition maxLines :: nat where
  "maxLines = 50"

definition beforeBlock :: "string list \<Rightarrow> string" where
  "beforeBlock beforeLines =
     ''### Before (first '' @ toString (int (min maxLines (length beforeLines)))
       @ '' lines)'' @ [CHR 0x0A, CHR 0x0A]
     @ [CHR 0x60, CHR 0x60, CHR 0x60] @ ''diff'' @ [CHR 0x0A]
     @ numbered (slice beforeLines 0 (int maxLines))
     @ [CHR 0x0A, CHR 0x60, CHR 0x60, CHR 0x60, CHR 0x0A]"

definition afterBlock :: "string list \<Rightarrow> string" where
  "afterBlock afterLines =
     [CHR 0x0A] @ ''### After (first '' @ toString (int (min maxLines (length afterLines)))
       @ '' lines)'' @ [CHR 0x0A, CHR 0x0A]
     @ [CHR 0x60, CHR 0x60, CHR 0x60] @ ''diff'' @ [CHR 0x0A]
     @ numbered (slice afterLines 0 (int maxLines))
     @ [CHR 0x0A, CHR 0x60, CHR 0x60, CHR 0x60, CHR 0x0A]"

text \<open>The branch \<open>diffRegions.length === 0\<close>, with its two guards.\<close>

definition renderNoRegions :: "string list \<Rightarrow> string list \<Rightarrow> string" where
  "renderNoRegions beforeLines afterLines =
     (if length beforeLines > 0 then beforeBlock beforeLines else [])
     @ (if length afterLines > 0 then afterBlock afterLines else [])"

definition renderContext :: "context_window \<Rightarrow> string" where
  "renderContext c =
     [CHR 0x60, CHR 0x60, CHR 0x60] @ ''diff'' @ [CHR 0x0A]
     @ (if before c \<noteq> [] then before c @ [CHR 0x0A] else [])
     @ (if changed c \<noteq> [] then changed c @ [CHR 0x0A] else [])
     @ (if after c \<noteq> [] then after c @ [CHR 0x0A] else [])
     @ [CHR 0x60, CHR 0x60, CHR 0x60, CHR 0x0A]"

text \<open>The arrow of the region heading is U+2192, three bytes in UTF-8.\<close>

definition renderRegion :: "string list \<Rightarrow> string list \<Rightarrow> region \<Rightarrow> string" where
  "renderRegion beforeLines afterLines r =
     (let beforeCtx = extractContext beforeLines (int (beforeStart r)) (int (beforeEnd r)) 5 1;
          afterCtx = extractContext afterLines (int (afterStart r)) (int (afterEnd r)) 5 1
      in ''### Diff Region ('' @ rtype r @ '') - Lines ''
           @ toString (int (beforeStart r) + 1) @ ''-'' @ toString (int (beforeEnd r))
           @ '' '' @ [CHR 0xE2, CHR 0x86, CHR 0x92] @ '' ''
           @ toString (int (afterStart r) + 1) @ ''-'' @ toString (int (afterEnd r))
           @ [CHR 0x0A, CHR 0x0A]
         @ (if before beforeCtx \<noteq> [] \<or> changed beforeCtx \<noteq> [] \<or> after beforeCtx \<noteq> [] then
              ''**Before:**'' @ [CHR 0x0A, CHR 0x0A] @ renderContext beforeCtx
            else [])
         @ (if before afterCtx \<noteq> [] \<or> changed afterCtx \<noteq> [] \<or> after afterCtx \<noteq> [] then
              [CHR 0x0A] @ ''**After:**'' @ [CHR 0x0A, CHR 0x0A] @ renderContext afterCtx
            else []))"

text \<open>The part of the loop body after the \<open>try\<close> block: splitting, classifying and
  rendering. \<open>diffLines\<close> is the function of the package \<open>diff\<close>.\<close>

definition renderDiff :: "(string \<Rightarrow> string \<Rightarrow> part list) \<Rightarrow> string \<Rightarrow> string \<Rightarrow> string" where
  "renderDiff diffLines beforeContent afterContent =
     (let beforeLines = split_lf beforeContent;
          afterLines = split_lf afterContent;
          regions = diffRegions (classify (diffLines beforeContent afterContent))
      in if length regions = 0 then renderNoRegions beforeLines afterLines
         else foldl (\<lambda>markdown r. markdown @ renderRegion beforeLines afterLines r) [] regions)"





subsection \<open>The handler\<close>







section \<open>Notions of the specification\<close>





text \<open>The kind of a part, in the order in which the loop tests the flags.\<close>

definition part_kind :: "part \<Rightarrow> string" where
  "part_kind p = (if added p then ''added'' else if removed p then ''removed'' else ''unchanged'')"

text \<open>Two regions with lines between them on both axes.\<close>

definition separated :: "region \<Rightarrow> region \<Rightarrow> bool" where
  "separated r1 r2 = (beforeEnd r1 < beforeStart r2 \<and> afterEnd r1 < afterStart r2)"

text \<open>
  The lines of a sequence in the half-open interval \<open>[lo, hi)\<close>: every line whose index
  \<open>i\<close> satisfies \<open>lo \<le> i < hi\<close>, with its index. \<open>show_lines\<close> prints such lines, each
  behind its line number (the index plus the number of the first line) in a field of
  width four.
\<close>

definition lines_in :: "string list \<Rightarrow> int \<Rightarrow> int \<Rightarrow> (int \<times> string) list" where
  "lines_in lines lo hi =
     map (\<lambda>i. (int i, lines ! i)) (filter (\<lambda>i. lo \<le> int i \<and> int i < hi) [0..<length lines])"

definition show_lines :: "int \<Rightarrow> (int \<times> string) list \<Rightarrow> string" where
  "show_lines startLineNumber ps =
     join [CHR 0x0A]
       (map (\<lambda>(i, line). padStart 4 (toString (startLineNumber + i)) @ '': '' @ line) ps)"

section \<open>Inputs used in the examples\<close>

text \<open>A server with one iteration, an empty change list, and the text \<open>x\<close> for every
  path at every commit.\<close>

definition api0 :: git_api where
  "api0 =
     \<lparr> getPullRequestIterations =
         Inr (Some [\<lparr> iteration_id = Some 1, sourceRefCommit = Some ''s'',
                      targetRefCommit = Some ''t'' \<rparr>]),
       getPullRequestIterationChanges = (\<lambda>i. Inr (Some [])),
       getItemContent = (\<lambda>p v. Inr (Some (Inr ''x''))) \<rparr>"


text \<open>The parts of \<open>diffLines("a\nb\nc\n", "b\n")\<close>: the first and the last line removed,
  the middle one kept.\<close>

definition removal_parts :: "part list" where
  "removal_parts =
     [\<lparr> added = False, removed = True, count = 1, part_value = ''a'' @ [CHR 0x0A] \<rparr>,
      \<lparr> added = False, removed = False, count = 1, part_value = ''b'' @ [CHR 0x0A] \<rparr>,
      \<lparr> added = False, removed = True, count = 1, part_value = ''c'' @ [CHR 0x0A] \<rparr>]"


definition line_count :: "string \<Rightarrow> nat" where
  "line_count s =
     (if last (split_lf s) = [] then length (split_lf s) - 1 else length (split_lf s))"

definition same_text :: "string \<Rightarrow> string \<Rightarrow> part list" where
  "same_text b a = [\<lparr> added = False, removed = False, count = line_count b, part_value = b \<rparr>]"








text \<open>A text of 51 lines: fifty empty ones, then the line \<open>z\<close>.\<close>

definition fifty_one_lines :: string where
  "fifty_one_lines = replicate 50 (CHR 0x0A) @ ''z''"

section \<open>Properties\<close>

subsection \<open>Line sequences\<close>

lemma split_lf_not_Nil: "split_lf s \<noteq> []"
  by (induction s) (auto split: list.splits)

lemma fetchContents_skip_before:
  "fetchContents gitApi tgt src path (Some 1) log = (log', Inr (b, a)) \<Longrightarrow> b = []"
  by (auto simp: fetchContents_def Let_def split: sum.splits option.splits if_splits prod.splits)

lemma fetchContents_skip_after:
  "fetchContents gitApi tgt src path (Some 2) log = (log', Inr (b, a)) \<Longrightarrow> a = []"
  by (auto simp: fetchContents_def Let_def split: sum.splits option.splits if_splits prod.splits)

text \<open>
  Claim C10. Splitting any string on the line feed gives at least one line, so the two
  line sequences are never empty: the content of a side whose fetch is skipped (change
  type 1 for the before side, change type 2 for the after side) is the empty string,
  which splits into the single empty line, and both guards of the branch without
  regions hold, so that branch always renders both blocks.
\<close>

theorem line_sequences_never_empty:
  "0 < length (split_lf s)
   \<and> split_lf [] = [[]]
   \<and> (\<forall>log' b a. fetchContents gitApi tgt src path (Some 1) log = (log', Inr (b, a))
         \<longrightarrow> split_lf b = [[]])
   \<and> (\<forall>log' b a. fetchContents gitApi tgt src path (Some 2) log = (log', Inr (b, a))
         \<longrightarrow> split_lf a = [[]])
   \<and> renderNoRegions (split_lf beforeContent) (split_lf afterContent)
       = beforeBlock (split_lf beforeContent) @ afterBlock (split_lf afterContent)"
  using split_lf_not_Nil
  by (auto simp: renderNoRegions_def dest: fetchContents_skip_before fetchContents_skip_after)

theorem line_sequences_never_empty_witness:
  "fetchContents api0 ''t'' ''s'' ''/f'' (Some 1) [] = ([(''/f'', ''s'')], Inr ([], ''x''))
   \<and> split_lf [] = [[]]
   \<and> fetchContents api0 ''t'' ''s'' ''/f'' (Some 2) [] = ([(''/f'', ''t'')], Inr (''x'', []))
   \<and> 0 < length (split_lf ''x'')"
  using line_sequences_never_empty [of "''x''" api0 "''t''" "''s''" "''/f''" "[]" "[]" "[]"]
  by (simp add: fetchContents_def api0_def streamToString_def)

subsection \<open>The region classifier\<close>

lemma classify_snoc: "classify (ps @ [p]) = classify_part (classify ps) p"
  by (simp add: classify_def classify_from_def)

lemma classify_Nil: "classify [] = \<lparr> beforeIdx = 0, afterIdx = 0, diffRegions = [] \<rparr>"
  by (simp add: classify_def classify_from_def)











lemma classify_sep_inv:
  assumes "successively (\<lambda>p q. part_kind p \<noteq> part_kind q) ps"
    and "\<forall>p\<in>set ps. 0 < count p"
  shows "successively (\<lambda>r1 r2. rtype r1 = rtype r2 \<longrightarrow> separated r1 r2) (diffRegions (classify ps))
    \<and> (diffRegions (classify ps) \<noteq> [] \<longrightarrow>
         ps \<noteq> []
         \<and> beforeEnd (last (diffRegions (classify ps))) \<le> beforeIdx (classify ps)
         \<and> afterEnd (last (diffRegions (classify ps))) \<le> afterIdx (classify ps)
         \<and> (part_kind (last ps) = ''unchanged'' \<longrightarrow>
               beforeEnd (last (diffRegions (classify ps))) < beforeIdx (classify ps)
               \<and> afterEnd (last (diffRegions (classify ps))) < afterIdx (classify ps))
         \<and> (part_kind (last ps) \<noteq> ''unchanged'' \<longrightarrow>
               rtype (last (diffRegions (classify ps))) = part_kind (last ps)))"
  using assms
proof (induction ps rule: rev_induct)
  case Nil
  show ?case by (simp add: classify_Nil)
next
  case (snoc p ps)
  define s where "s = classify ps"
  from snoc.prems have alt: "successively (\<lambda>p q. part_kind p \<noteq> part_kind q) ps"
    and last_kind: "ps = [] \<or> part_kind (last ps) \<noteq> part_kind p"
    and pos: "\<forall>p\<in>set ps. 0 < count p" and cp: "0 < count p"
    by (simp_all add: successively_append_iff)
  note IH = snoc.IH [OF alt pos, folded s_def]
  show ?case
    unfolding classify_snoc s_def [symmetric]
    using IH last_kind cp
    by (cases "added p"; cases "removed p")
       (auto simp: classify_part_def successively_append_iff part_kind_def separated_def
             split: if_splits)
qed






text \<open>
  Claim C5, as stated, fails: when the first and the last of three lines are removed,
  the region list is two removed regions in a row, the kept line between them having
  no region.
\<close>

theorem adjacent_same_kind_counterexample:
  "\<not> successively (\<lambda>r1 r2. rtype r1 \<noteq> rtype r2) (diffRegions (classify removal_parts))"
  by (simp add: classify_def classify_from_def classify_part_def removal_parts_def)

text \<open>
  Claim C5, amended. The loop records one region for each added or removed part and
  merges nothing itself. When no two neighbouring parts of \<open>diffLines\<close> are of the same
  kind and every part has at least one line, two consecutive regions of the same type
  are separated on both axes by the lines of an unchanged part; regions that touch
  are of different types.
\<close>

theorem consecutive_same_kind_separated:
  assumes "successively (\<lambda>p q. part_kind p \<noteq> part_kind q) ps"
    and "\<forall>p\<in>set ps. 0 < count p"
  shows "successively (\<lambda>r1 r2. rtype r1 = rtype r2 \<longrightarrow> separated r1 r2)
           (diffRegions (classify ps))"
  using classify_sep_inv [OF assms] by blast

theorem consecutive_same_kind_separated_witness:
  "successively (\<lambda>p q. part_kind p \<noteq> part_kind q) removal_parts
   \<and> successively (\<lambda>r1 r2. rtype r1 = rtype r2 \<longrightarrow> separated r1 r2)
       (diffRegions (classify removal_parts))
   \<and> length (diffRegions (classify removal_parts)) = 2"
proof -
  have alt: "successively (\<lambda>p q. part_kind p \<noteq> part_kind q) removal_parts"
    by (simp add: removal_parts_def part_kind_def)
  have pos: "\<forall>p\<in>set removal_parts. 0 < count p"
    by (simp add: removal_parts_def)
  have "length (diffRegions (classify removal_parts)) = 2"
    by (simp add: classify_def classify_from_def classify_part_def removal_parts_def)
  then show ?thesis
    using alt consecutive_same_kind_separated [OF alt pos] by simp
qed

subsection \<open>The context window\<close>

lemma filter_upt_range:
  "filter (\<lambda>i. lo \<le> i \<and> i < hi) [0..<n] = [min lo n ..< min hi n]"
proof (induction n)
  case 0
  then show ?case by simp
next
  case (Suc n)
  have step: "filter (\<lambda>i. lo \<le> i \<and> i < hi) [0..<Suc n]
                = [min lo n ..< min hi n] @ (if lo \<le> n \<and> n < hi then [n] else [])"
    using Suc by simp
  show ?case
  proof (cases "lo \<le> n \<and> n < hi")
    case True
    then have "min lo n = lo" "min hi n = n" "min lo (Suc n) = lo" "min hi (Suc n) = Suc n"
      by simp_all
    then show ?thesis using True step by simp
  next
    case False
    then consider "n < lo" | "hi \<le> n" by linarith
    then show ?thesis
    proof cases
      case 1
      then show ?thesis unfolding step by (auto simp: min_def)
    next
      case 2
      then show ?thesis unfolding step by (auto simp: min_def)
    qed
  qed
qed

lemma lines_in_upt:
  assumes "0 \<le> lo"
  shows "lines_in lines lo hi =
           map (\<lambda>i. (int i, lines ! i))
             [nat (min lo (int (length lines))) ..< nat (min hi (int (length lines)))]"
proof -
  have "(\<lambda>i. lo \<le> int i \<and> int i < hi) = (\<lambda>i. nat lo \<le> i \<and> i < nat hi)"
    using assms by (intro ext) linarith
  then have "filter (\<lambda>i. lo \<le> int i \<and> int i < hi) [0..<length lines]
               = [min (nat lo) (length lines) ..< min (nat hi) (length lines)]"
    by (simp add: filter_upt_range)
  moreover have "\<And>L. min (nat lo) L = nat (min lo (int L))"
    by linarith
  moreover have "\<And>L. min (nat hi) L = nat (min hi (int L))"
    by linarith
  ultimately show ?thesis by (simp add: lines_in_def)
qed

lemma slice_nonneg:
  assumes "0 \<le> a" and "0 \<le> b"
  shows "slice xs a b = map (\<lambda>i. xs ! i) [nat (min a (int (length xs))) ..< nat (min b (int (length xs)))]"
  using assms by (simp add: slice_def slice_indices_def)

lemma format_slice:
  assumes "0 \<le> a" and "0 \<le> b"
  shows "formatLinesWithNumbers (slice lines a b) (n + a) = show_lines n (lines_in lines a b)"
proof -
  define k where "k = nat (min a (int (length lines)))"
  define f where "f = nat (min b (int (length lines)))"
  have ka: "k < f \<Longrightarrow> int k = a"
    using assms by (auto simp: k_def f_def min_def split: if_splits)
  have "map (\<lambda>(index, line). padStart 4 (toString (n + a + int index)) @ '': '' @ line)
            (enumerate 0 (map (\<lambda>i. lines ! i) [k..<f]))
        = map (\<lambda>(i, line). padStart 4 (toString (n + i)) @ '': '' @ line)
            (map (\<lambda>i. (int i, lines ! i)) [k..<f])" (is "?l = ?r")
  proof (rule nth_equalityI)
    show "length ?l = length ?r" by simp
  next
    fix i
    assume "i < length ?l"
    then have i: "i < f - k" by simp
    then show "?l ! i = ?r ! i"
      using ka by (simp add: nth_enumerate_eq add.assoc)
  qed
  then show ?thesis
    unfolding formatLinesWithNumbers_def show_lines_def slice_nonneg [OF assms]
      lines_in_upt [OF assms(1)] k_def [symmetric] f_def [symmetric]
    by simp
qed

lemma slice_indices_in_range:
  "i \<in> set (slice_indices len a b) \<Longrightarrow> i < len"
  by (auto simp: slice_indices_def Let_def split: if_splits)

text \<open>
  Claim C8, as stated, fails for a negative \<open>start\<close>: \<open>slice\<close> counts a negative
  argument from the end of the array. With three lines, \<open>start = -1\<close>, \<open>end = 2\<close> and a
  context of five, the interval \<open>[max(0, start - 5), start)\<close> is empty, yet the code
  returns the first two lines as the context before.
\<close>

theorem extractContext_negative_counterexample:
  "before (extractContext [''a'', ''b'', ''c''] (-1) 2 5 1) = ''   1: a'' @ [CHR 0x0A] @ ''   2: b''
   \<and> show_lines 1 (lines_in [''a'', ''b'', ''c''] (max 0 (-1 - 5)) (-1)) = []
   \<and> before (extractContext [''a'', ''b'', ''c''] (-1) 2 5 1)
       \<noteq> show_lines 1 (lines_in [''a'', ''b'', ''c''] (max 0 (-1 - 5)) (-1))"
  by code_simp

text \<open>
  Claim C8, amended. For every line sequence of length \<open>L\<close> and all integers with
  \<open>0 \<le> start\<close>, \<open>0 \<le> end\<close> and \<open>0 \<le> end + contextSize\<close>, the context window is the
  numbered lines of \<open>[max(0, start - contextSize), start)\<close>, of \<open>[start, end)\<close> and of
  \<open>[end, min(L, end + contextSize))\<close>. For all integers whatsoever, every index the three
  slices read lies in \<open>[0, L)\<close>.
\<close>

theorem extractContext_window:
  "(0 \<le> start \<and> 0 \<le> end \<and> 0 \<le> end + ctx \<longrightarrow>
      extractContext lines start end ctx n =
        \<lparr> before = show_lines n (lines_in lines (max 0 (start - ctx)) start),
          changed = show_lines n (lines_in lines start end),
          after = show_lines n (lines_in lines end (min (int (length lines)) (end + ctx))) \<rparr>)
   \<and> (\<forall>i\<in>set (slice_indices (length lines) (max 0 (start - ctx)) start
                  @ slice_indices (length lines) start end
                  @ slice_indices (length lines) end (min (int (length lines)) (end + ctx))).
         i < length lines)"
proof -
  have "extractContext lines start end ctx n =
        \<lparr> before = show_lines n (lines_in lines (max 0 (start - ctx)) start),
          changed = show_lines n (lines_in lines start end),
          after = show_lines n (lines_in lines end (min (int (length lines)) (end + ctx))) \<rparr>"
    if h: "0 \<le> start" "0 \<le> end" "0 \<le> end + ctx"
  proof -
    have "0 \<le> min (int (length lines)) (end + ctx)" using h(3) by simp
    then show ?thesis
      using h by (simp add: extractContext_def Let_def format_slice)
  qed
  then show ?thesis
    by (auto dest: slice_indices_in_range)
qed

theorem extractContext_window_witness:
  "extractContext [''a'', ''b'', ''c''] 1 2 5 1
     = \<lparr> before = ''   1: a'', changed = ''   2: b'', after = ''   3: c'' \<rparr>
   \<and> (0::int) \<le> 1 \<and> (0::int) \<le> 2 \<and> (0::int) \<le> 2 + 5"
proof -
  have "extractContext [''a'', ''b'', ''c''] 1 2 5 1 =
        \<lparr> before = show_lines 1 (lines_in [''a'', ''b'', ''c''] (max 0 (1 - 5)) 1),
          changed = show_lines 1 (lines_in [''a'', ''b'', ''c''] 1 2),
          after = show_lines 1 (lines_in [''a'', ''b'', ''c''] 2
                    (min (int (length [''a'', ''b'', ''c''])) (2 + 5))) \<rparr>"
    using extractContext_window [of 1 2 5 "[''a'', ''b'', ''c'']" 1] by simp
  moreover have "show_lines 1 (lines_in [''a'', ''b'', ''c''] (max 0 (1 - 5)) 1) = ''   1: a''"
    by code_simp
  moreover have "show_lines 1 (lines_in [''a'', ''b'', ''c''] 1 2) = ''   2: b''"
    by code_simp
  moreover have "show_lines 1 (lines_in [''a'', ''b'', ''c''] 2
                    (min (int (length [''a'', ''b'', ''c''])) (2 + 5))) = ''   3: c''"
    by code_simp
  ultimately show ?thesis by simp
qed

subsection \<open>The loop over the changed files\<close>












subsection \<open>The handler\<close>








text \<open>The requests of one file, when no request throws: the before-content unless the
  change type is 1, then the after-content unless the change type is 2.\<close>

lemma fetchContents_requests:
  assumes "\<And>p v. getItemContent gitApi p v = Inr (Some (Inr (content p v)))"
  shows "fst (fetchContents gitApi tgt src path ct log)
           = log @ (if ct \<noteq> Some 1 then [(path, tgt)] else [])
                 @ (if ct \<noteq> Some 2 then [(path, src)] else [])"
  by (simp add: fetchContents_def assms streamToString_def)

text \<open>
  Claim C2, on the code. The guard of the after-content request compares the change
  type with 2. In the enumeration \<open>VersionControlChangeType\<close> of the package
  \<open>azure-devops-node-api\<close>, from which the change entries come, 2 is \<open>Edit\<close> and
  \<open>Delete\<close> is 16: for an edited file the handler requests the before-content only,
  and for a deleted file it requests both contents.
\<close>

theorem after_fetch_guard_evaluated:
  "fst (fetchContents api0 ''t'' ''s'' ''/f'' (Some 2) []) = [(''/f'', ''t'')]
   \<and> fst (fetchContents api0 ''t'' ''s'' ''/f'' (Some 16) []) = [(''/f'', ''t''), (''/f'', ''s'')]
   \<and> fst (fetchContents api0 ''t'' ''s'' ''/f'' (Some 1) []) = [(''/f'', ''s'')]"
  by (simp add: fetchContents_def api0_def streamToString_def)

text \<open>
  Claim C4, on the code. For a file of 51 lines whose two contents are the same there
  is no region, and the block that is rendered holds the first 50 lines of each
  sequence only: the last line, \<open>z\<close>, is not in it.
\<close>

theorem no_regions_block_evaluated:
  "length (split_lf fifty_one_lines) = 51
   \<and> last (split_lf fifty_one_lines) = ''z''
   \<and> diffRegions (classify (same_text fifty_one_lines fifty_one_lines)) = []
   \<and> CHR ''z'' \<notin> set (renderDiff same_text fifty_one_lines fifty_one_lines)"
  by code_simp

end
